theory Spec2Isabelle
  imports Complex_Main "HOL-Library.Sublist"
begin

section \<open>JavaScript values shared by the three modules\<close>

text \<open>
  A thrown value of the kind the code creates itself (\<^verbatim>\<open>new Error(msg)\<close>) or the
  runtime creates for it (a \<^verbatim>\<open>TypeError\<close> for calling something that is not a function).
\<close>

datatype jsError = Error string | TypeError string

section \<open>src/logic/contracts/safeContracts.ts\<close>

subsection \<open>The deployment registry and the configuration\<close>

type_synonym abiItems = "string list"

text \<open>
  A deployment descriptor of the registry package: a version, an ABI and one address per
  network id. \<^verbatim>\<open>networkAddresses[chainId]\<close> is \<^verbatim>\<open>undefined\<close> for a missing key.
\<close>

record singletonDeployment =
  deploymentVersion :: string
  abi :: abiItems
  networkAddresses :: "string \<rightharpoonup> string"

text \<open>
  The filter object handed to a registry function, \<^verbatim>\<open>{ version?, network? }\<close>; a call
  with no argument is the filter with both fields absent.
\<close>

record deploymentFilter =
  version :: "string option"
  network :: "string option"

text \<open>The six registry functions the module imports, by name.\<close>

datatype deploymentFn =
    getSafeSingletonDeployment
  | getSafeL2SingletonDeployment
  | getProxyFactoryDeployment
  | getFallbackHandlerDeployment
  | getMultiSendCallOnlyDeployment
  | getSignMessageLibDeployment

record chainInfo =
  chainInfoId :: string
  l2 :: bool

text \<open>
  Everything the module reads from outside: the registry package (each function returns a
  descriptor or \<^verbatim>\<open>undefined\<close>), the range test of the semver package, the current
  chain id (\<^verbatim>\<open>_getChainId()\<close>), the chain configuration (\<^verbatim>\<open>getChainById\<close>) and the
  constant \<^verbatim>\<open>LATEST_SAFE_VERSION\<close>. A chain id is a string, so \<^verbatim>\<open>toString()\<close> is the
  identity on it.
\<close>

record config =
  safeDeployments :: "deploymentFn \<Rightarrow> deploymentFilter \<Rightarrow> singletonDeployment option"
  semverSatisfies :: "string \<Rightarrow> string \<Rightarrow> bool"
  getChainId :: string
  getChainById :: "string \<Rightarrow> chainInfo"
  LATEST_SAFE_VERSION :: string

text \<open>
  A registry call, together with the record of it: which function was consulted with
  which filter. The record makes the order and the number of lookups observable.
\<close>

type_synonym registryCall = "deploymentFn \<times> deploymentFilter"

definition callDeployment ::
  "config \<Rightarrow> deploymentFn \<Rightarrow> deploymentFilter \<Rightarrow> singletonDeployment option \<times> registryCall list" where
  "callDeployment env fn flt = (safeDeployments env fn flt, [(fn, flt)])"

text \<open>
  \<^verbatim>\<open>a || b\<close> on descriptors: a descriptor is an object, hence truthy, and \<^verbatim>\<open>undefined\<close>
  is falsy. The right operand is evaluated (its calls are recorded) only when the left
  one is \<^verbatim>\<open>undefined\<close>.
\<close>

definition orElse ::
  "'a option \<times> registryCall list \<Rightarrow> 'a option \<times> registryCall list \<Rightarrow> 'a option \<times> registryCall list" where
  "orElse a b = (case fst a of Some d \<Rightarrow> a | None \<Rightarrow> (fst b, snd a @ snd b))"

subsection \<open>getSafeContractDeployment\<close>

definition getSafeContractDeployment ::
  "config \<Rightarrow> string \<Rightarrow> singletonDeployment option \<times> registryCall list" where
  "getSafeContractDeployment env safeVersion =
    (let useOldestContractVersion = semverSatisfies env safeVersion ''<1.0.0'';
         networkId = getChainId env;
         chainConfig = getChainById env networkId;
         useL2ContractVersion = (l2 chainConfig \<and> semverSatisfies env safeVersion ''>=1.3.0'');
         getDeployment =
           (if useL2ContractVersion then getSafeL2SingletonDeployment else getSafeSingletonDeployment)
     in orElse
          (callDeployment env getDeployment \<lparr>version = Some safeVersion, network = Some networkId\<rparr>)
          (orElse
            (callDeployment env getDeployment \<lparr>version = Some safeVersion, network = None\<rparr>)
            (if useOldestContractVersion
             then callDeployment env getDeployment \<lparr>version = Some ''1.0.0'', network = None\<rparr>
             else (None, []))))"

subsection \<open>Contract instances\<close>

text \<open>A contract instance: its ABI and its address (\<^verbatim>\<open>options.address\<close>).\<close>

record contract =
  contractAbi :: abiItems
  contractAddress :: string

text \<open>
  The \<^verbatim>\<open>web3\<close> object the getters receive, as far as they use it: the constructor
  \<^verbatim>\<open>new web3.eth.Contract(abi, address)\<close>. It is handed an ABI, which is
  \<^verbatim>\<open>undefined\<close> when the descriptor is (\<^verbatim>\<open>deployment?.abi\<close>), and an address; it
  returns the instance or throws.
\<close>

record web3 =
  eth_Contract :: "abiItems option \<Rightarrow> string \<Rightarrow> jsError + contract"

text \<open>
  The constructor of the web3 library, as far as its test of the ABI goes: it throws
  when the ABI is not an array, and builds the instance otherwise. (Its tests of the
  address are left out.)
\<close>

definition web3js :: web3 where
  "web3js =
    \<lparr>eth_Contract =
       (\<lambda>jsonInterface addr.
          case jsonInterface of
            None \<Rightarrow>
              Inl (Error ''You must provide the json interface of the contract when instantiating a contract object.'')
          | Some items \<Rightarrow> Inr \<lparr>contractAbi = items, contractAddress = addr\<rparr>)\<rparr>"

text \<open>\<^verbatim>\<open>deployment?.networkAddresses[chainId]\<close>.\<close>

definition addressFor :: "singletonDeployment option \<Rightarrow> string \<Rightarrow> string option" where
  "addressFor deployment chainId =
    (case deployment of None \<Rightarrow> None | Some d \<Rightarrow> networkAddresses d chainId)"

text \<open>
  \<^verbatim>\<open>!contractAddress\<close>: an address is falsy when it is \<^verbatim>\<open>undefined\<close> or the empty
  string.
\<close>

definition falsyAddress :: "string option \<Rightarrow> bool" where
  "falsyAddress a = (case a of None \<Rightarrow> True | Some s \<Rightarrow> s = [])"

text \<open>\<^verbatim>\<open>if (!contractAddress) { contractAddress = literal }\<close>.\<close>

definition orLiteral :: "string option \<Rightarrow> string \<Rightarrow> string" where
  "orLiteral a literal = (case a of None \<Rightarrow> literal | Some s \<Rightarrow> if s = [] then literal else s)"

text \<open>
  The getters that end in the constructor call have no \<^verbatim>\<open>throw\<close> of their own (it is
  commented out in the source): their outcome is the constructor's.
\<close>

definition getGnosisSafeContractInstance :: "config \<Rightarrow> web3 \<Rightarrow> string \<Rightarrow> jsError + contract" where
  "getGnosisSafeContractInstance env web3 chainId =
    (let safeSingletonDeployment = fst (getSafeContractDeployment env (LATEST_SAFE_VERSION env));
         contractAddress = addressFor safeSingletonDeployment chainId
     in eth_Contract web3 (map_option abi safeSingletonDeployment)
          (orLiteral contractAddress ''0x4f9b1def3a0f6747bf8c870a27d3decdf029100e''))"

definition getProxyFactoryContractInstance :: "config \<Rightarrow> web3 \<Rightarrow> string \<Rightarrow> jsError + contract" where
  "getProxyFactoryContractInstance env web3 chainId =
    (let proxyFactoryDeployment =
           fst (orElse
             (callDeployment env getProxyFactoryDeployment
               \<lparr>version = Some (LATEST_SAFE_VERSION env), network = Some chainId\<rparr>)
             (callDeployment env getProxyFactoryDeployment
               \<lparr>version = Some (LATEST_SAFE_VERSION env), network = None\<rparr>));
         contractAddress = addressFor proxyFactoryDeployment chainId
     in eth_Contract web3 (map_option abi proxyFactoryDeployment)
          (orLiteral contractAddress ''0x4f9b1def3a0f6747bf8c870a27d3decdf029100e''))"

subsection \<open>SignMessageLib\<close>

definition signMessageLibDeployment :: "config \<Rightarrow> string \<Rightarrow> singletonDeployment option" where
  "signMessageLibDeployment env chainId =
    fst (orElse
      (callDeployment env getSignMessageLibDeployment \<lparr>version = None, network = Some chainId\<rparr>)
      (callDeployment env getSignMessageLibDeployment \<lparr>version = None, network = None\<rparr>))"

text \<open>
  The function logs the descriptor it found to the console, then returns the address or
  throws; the result is the pair of the outcome and the console output.
\<close>

definition getSignMessageLibAddress ::
  "config \<Rightarrow> string \<Rightarrow> (jsError + string) \<times> singletonDeployment option list" where
  "getSignMessageLibAddress env chainId =
    (let deployment = signMessageLibDeployment env chainId;
         contractAddress = addressFor deployment chainId;
         contractAddress =
           (if chainId = ''1666600000'' then Some ''0x1b02dA8Cb0d097eB8D57A175b88c7D8b47997506''
            else contractAddress)
     in (case contractAddress of
           None \<Rightarrow> Inl (Error (''SignMessageLib contract not found for chainId: '' @ chainId))
         | Some a \<Rightarrow>
             if a = [] then Inl (Error (''SignMessageLib contract not found for chainId: '' @ chainId))
             else Inr a,
         [deployment]))"

definition getSignMessageLibContractInstance :: "config \<Rightarrow> web3 \<Rightarrow> string \<Rightarrow> jsError + contract" where
  "getSignMessageLibContractInstance env web3 chainId =
    (let deployment = signMessageLibDeployment env chainId;
         contractAddress = addressFor deployment chainId;
         contractAddress =
           (if chainId = ''1666600000'' then Some ''0x1b02dA8Cb0d097eB8D57A175b88c7D8b47997506''
            else contractAddress)
     in case contractAddress of
          None \<Rightarrow> Inl (Error (''SignMessageLib contract not found for chainId: '' @ chainId))
        | Some a \<Rightarrow>
            if a = [] then Inl (Error (''SignMessageLib contract not found for chainId: '' @ chainId))
            else eth_Contract web3 (map_option abi deployment) a)"

subsection \<open>getMasterCopyAddressFromProxyAddress\<close>

record addressEx =
  addressValue :: string

record safeInfo =
  implementation :: addressEx

text \<open>
  A value caught by the \<^verbatim>\<open>catch\<close> clause. Any value can be thrown, and what a failed
  \<^verbatim>\<open>getSafeInfo\<close> rejects with is decided outside this module
  (\<^verbatim>\<open>src/logic/safe/utils/safeInformation\<close>), so both kinds are possible inputs: the
  field \<open>hasLogMethod\<close> says whether the value has a callable \<^verbatim>\<open>log\<close> property. A
  standard error value (\<^verbatim>\<open>new Error(msg)\<close>) has none.
\<close>

record caughtValue =
  caughtMessage :: string
  hasLogMethod :: bool

definition standardError :: "string \<Rightarrow> caughtValue" where
  "standardError msg = \<lparr>caughtMessage = msg, hasLogMethod = False\<rparr>"

text \<open>An exception object of a class that defines a \<^verbatim>\<open>log()\<close> method.\<close>

definition loggableError :: "string \<Rightarrow> caughtValue" where
  "loggableError msg = \<lparr>caughtMessage = msg, hasLogMethod = True\<rparr>"

datatype consoleEvent = ConsoleError string | LogCalled caughtValue

text \<open>
  The awaited \<^verbatim>\<open>getSafeInfo(proxyAddress)\<close> is a parameter: \<open>Inl e\<close> is a rejection
  with the value \<open>e\<close>. The result is the settled promise (\<open>Inl\<close> a rejection, \<open>Inr\<close>
  the resolved \<^verbatim>\<open>string | undefined\<close>) and the console events. \<^verbatim>\<open>e.log()\<close> on a
  value with no \<^verbatim>\<open>log\<close> method throws a \<^verbatim>\<open>TypeError\<close> out of the \<^verbatim>\<open>catch\<close> block,
  so the \<^verbatim>\<open>return\<close> after it is not reached.
\<close>

definition getMasterCopyAddressFromProxyAddress ::
  "(string \<Rightarrow> caughtValue + safeInfo) \<Rightarrow> string \<Rightarrow> (jsError + string option) \<times> consoleEvent list" where
  "getMasterCopyAddressFromProxyAddress getSafeInfo proxyAddress =
    (case getSafeInfo proxyAddress of
       Inr res \<Rightarrow>
         (let masterCopyAddress = addressValue (implementation res)
          in if masterCopyAddress = []
             then (Inr (Some ''0x3736aC8400751bf07c6A2E4db3F4f3D9D422abB2''),
                   [ConsoleError (''There was not possible to get masterCopy address from proxy ''
                      @ proxyAddress @ ''.'')])
             else (Inr (Some masterCopyAddress), []))
     | Inl e \<Rightarrow>
         (if hasLogMethod e then (Inr None, [LogCalled e])
          else (Inl (TypeError ''e.log is not a function''), [])))"

section \<open>The token selector (extendedSafeTokensSelector)\<close>

record safeBalance =
  tokenAddress :: "string option"
  fiatBalance :: string
  tokenBalance :: string

record token =
  address :: string
  tokenName :: string
  symbol :: string
  decimals :: nat
  logoUri :: string
  balance :: safeBalance

text \<open>
  What the store holds under the safe's balances: an array of balance entries, or (for a
  safe persisted before the migration the source's comment mentions) an object keyed by
  address, or nothing; the last two are not arrays.
\<close>

datatype persistedBalances =
    BalancesArray "safeBalance list"
  | BalancesObject "(string \<times> string) list"
  | BalancesUndefined

fun isArray :: "persistedBalances \<Rightarrow> bool" where
  "isArray (BalancesArray _) = True"
| "isArray (BalancesObject _) = False"
| "isArray BalancesUndefined = False"

text \<open>
  The body of the \<^verbatim>\<open>forEach\<close> callback: the token to push for one balance entry, or
  nothing when the callback returns early. \<^verbatim>\<open>sameAddress\<close> (of
  \<^verbatim>\<open>src/logic/wallets/ethAddresses\<close>) is a parameter; its second argument is
  \<^verbatim>\<open>ethAsToken?.address\<close>. \<^verbatim>\<open>tokensList.get\<close> is the lookup of the tokens map.
\<close>

definition extendToken ::
  "(string option \<Rightarrow> string option \<Rightarrow> bool) \<Rightarrow> (string \<rightharpoonup> token) \<Rightarrow> token option \<Rightarrow>
   safeBalance \<Rightarrow> token option" where
  "extendToken sameAddress tokensList ethAsToken safeBal =
    (case tokenAddress safeBal of
       None \<Rightarrow> None
     | Some tokenAddr \<Rightarrow>
         if tokenAddr = [] then None
         else
           (let baseToken =
                  (if sameAddress (Some tokenAddr) (map_option address ethAsToken)
                   then ethAsToken else tokensList tokenAddr)
            in case baseToken of
                 None \<Rightarrow> None
               | Some t \<Rightarrow> Some (t\<lparr>balance := safeBal\<rparr>)))"

text \<open>The \<^verbatim>\<open>forEach\<close> loop, pushing onto \<^verbatim>\<open>extendedTokens\<close>.\<close>

fun forEachBalance ::
  "(string option \<Rightarrow> string option \<Rightarrow> bool) \<Rightarrow> (string \<rightharpoonup> token) \<Rightarrow> token option \<Rightarrow>
   safeBalance list \<Rightarrow> token list \<Rightarrow> token list" where
  "forEachBalance sameAddress tokensList ethAsToken [] extendedTokens = extendedTokens"
| "forEachBalance sameAddress tokensList ethAsToken (safeBal # rest) extendedTokens =
    forEachBalance sameAddress tokensList ethAsToken rest
      (case extendToken sameAddress tokensList ethAsToken safeBal of
         None \<Rightarrow> extendedTokens
       | Some t \<Rightarrow> extendedTokens @ [t])"

text \<open>
  The selector's result function: the list of tokens and the messages captured by the
  monitoring client (\<^verbatim>\<open>Sentry.captureMessage\<close>) during one evaluation.
\<close>

definition extendedSafeTokensSelector ::
  "(string option \<Rightarrow> string option \<Rightarrow> bool) \<Rightarrow> persistedBalances \<Rightarrow> (string \<rightharpoonup> token) \<Rightarrow>
   token option \<Rightarrow> token list \<times> string list" where
  "extendedSafeTokensSelector sameAddress safeBalances tokensList ethAsToken =
    (case safeBalances of
       BalancesArray entries \<Rightarrow> (forEachBalance sameAddress tokensList ethAsToken entries [], [])
     | _ \<Rightarrow>
         ([], [''There was an error loading `safeBalances` in `extendedSafeTokensSelector`, probably safe loaded prior to v3.5.0'']))"

text \<open>
  The specification's reading of "matches a known token": the entry has an address, and
  that address is the native-currency token's (by \<^verbatim>\<open>sameAddress\<close>) or a key of the
  tokens map. An entry with no address (absent or empty) matches no token.
\<close>

definition knownToken ::
  "(string option \<Rightarrow> string option \<Rightarrow> bool) \<Rightarrow> (string \<rightharpoonup> token) \<Rightarrow> token option \<Rightarrow>
   safeBalance \<Rightarrow> token option" where
  "knownToken sameAddress tokensList ethAsToken safeBal =
    (case tokenAddress safeBal of
       None \<Rightarrow> None
     | Some tokenAddr \<Rightarrow>
         if tokenAddr = [] then None
         else
           (case ethAsToken of
              Some eth \<Rightarrow>
                if sameAddress (Some tokenAddr) (Some (address eth)) then Some eth
                else tokensList tokenAddr
            | None \<Rightarrow> tokensList tokenAddr))"

section \<open>src/utils/googleTagManager.ts\<close>

subsection \<open>getAnonymizedLocation\<close>

record location =
  pathname :: string
  search :: string
  hash :: string

text \<open>
  The router the function reads: \<^verbatim>\<open>matchPath\<close> of the routing library (the parameters
  of the match, or \<^verbatim>\<open>null\<close>), and the route patterns and parameter names of
  \<^verbatim>\<open>src/routes/routes\<close>.
\<close>

record 'route routing =
  matchPath :: "string \<Rightarrow> 'route \<Rightarrow> (string \<rightharpoonup> string) option"
  ADDRESSED_ROUTE :: 'route
  TRANSACTIONS_SINGULAR :: 'route
  SAFE_ADDRESS_SLUG :: string
  TRANSACTION_ID_SLUG :: string

text \<open>
  \<^verbatim>\<open>s.replace(pattern, replacement)\<close> with a string pattern: the first occurrence of
  the pattern is replaced, and an empty pattern matches at the start. (The two
  replacement strings the function uses contain no \<^verbatim>\<open>$\<close>, so they are taken literally.)
\<close>

fun replace :: "string \<Rightarrow> string \<Rightarrow> string \<Rightarrow> string" where
  "replace [] pat rep = (if pat = [] then rep else [])"
| "replace (c # cs) pat rep =
    (if prefix pat (c # cs) then rep @ drop (length pat) (c # cs) else c # replace cs pat rep)"

text \<open>\<^verbatim>\<open>match.params[slug]\<close> as a pattern: a missing parameter is converted to the
  string \<^verbatim>\<open>undefined\<close>.\<close>

definition paramText :: "(string \<rightharpoonup> string) \<Rightarrow> string \<Rightarrow> string" where
  "paramText params slug = (case params slug of None \<Rightarrow> ''undefined'' | Some v \<Rightarrow> v)"

definition getAnonymizedLocation :: "'route routing \<Rightarrow> location \<Rightarrow> string" where
  "getAnonymizedLocation router loc =
    (let anonPathname = pathname loc;
         anonPathname =
           (case matchPath router (pathname loc) (ADDRESSED_ROUTE router) of
              None \<Rightarrow> anonPathname
            | Some params \<Rightarrow>
                replace anonPathname (paramText params (SAFE_ADDRESS_SLUG router)) ''SAFE_ADDRESS'');
         anonPathname =
           (case matchPath router (pathname loc) (TRANSACTIONS_SINGULAR router) of
              None \<Rightarrow> anonPathname
            | Some params \<Rightarrow>
                replace anonPathname (paramText params (TRANSACTION_ID_SLUG router)) ''TRANSACTION_ID'')
     in anonPathname @ search loc @ hash loc)"

text \<open>\<^verbatim>\<open>s.indexOf(pattern)\<close>: where the first occurrence of the pattern starts.\<close>

fun indexOf :: "string \<Rightarrow> string \<Rightarrow> nat option" where
  "indexOf [] pat = (if pat = [] then Some 0 else None)"
| "indexOf (c # cs) pat =
    (if prefix pat (c # cs) then Some 0 else map_option Suc (indexOf cs pat))"

subsection \<open>A router with plain segment patterns\<close>

text \<open>
  A route pattern such as \<^verbatim>\<open>/:prefixedSafeAddress/transactions/:txId\<close> as a list of
  parts, and the routing library's match of a pathname against it: the pathname is cut at
  the slashes, a fixed part must equal its segment up to the case of the letters, a named
  part takes any non-empty segment, and segments after the pattern are ignored (the match
  is not exact).
\<close>

datatype routePart = Fixed string | Named string

definition lowerCase :: "char \<Rightarrow> char" where
  "lowerCase c =
    (case map_of (zip ''ABCDEFGHIJKLMNOPQRSTUVWXYZ'' ''abcdefghijklmnopqrstuvwxyz'') c of
       None \<Rightarrow> c
     | Some l \<Rightarrow> l)"

fun segments :: "string \<Rightarrow> string list" where
  "segments [] = [[]]"
| "segments (c # cs) =
    (case segments cs of
       [] \<Rightarrow> [[c]]
     | s # ss \<Rightarrow> if c = CHR ''/'' then [] # s # ss else (c # s) # ss)"

fun matchParts :: "routePart list \<Rightarrow> string list \<Rightarrow> (string \<rightharpoonup> string) option" where
  "matchParts [] segs = Some Map.empty"
| "matchParts (p # ps) [] = None"
| "matchParts (Fixed f # ps) (s # segs) =
    (if map lowerCase f = map lowerCase s then matchParts ps segs else None)"
| "matchParts (Named n # ps) (s # segs) =
    (if s = [] then None
     else (case matchParts ps segs of None \<Rightarrow> None | Some params \<Rightarrow> Some (params(n \<mapsto> s))))"

definition matchSegments :: "string \<Rightarrow> routePart list \<Rightarrow> (string \<rightharpoonup> string) option" where
  "matchSegments path route =
    (case segments path of
       [] # segs \<Rightarrow> matchParts route segs
     | _ \<Rightarrow> None)"

definition segmentRouter :: "routePart list routing" where
  "segmentRouter =
    \<lparr>matchPath = matchSegments,
     ADDRESSED_ROUTE = [Named ''prefixedSafeAddress''],
     TRANSACTIONS_SINGULAR = [Named ''prefixedSafeAddress'', Fixed ''transactions'', Named ''txId''],
     SAFE_ADDRESS_SLUG = ''prefixedSafeAddress'',
     TRANSACTION_ID_SLUG = ''txId''\<rparr>"

subsection \<open>trackEvent\<close>

datatype gtmEvent = PAGEVIEW | CLICK | META

text \<open>
  A JavaScript number, as far as its truthiness goes: a finite value (both zeros are the
  real \<open>0\<close>), an infinity, or \<^verbatim>\<open>NaN\<close>.
\<close>

datatype jsNumber = Finite real | PosInfinity | NegInfinity | NaN

datatype label = LString string | LNumber jsNumber | LBoolean bool

fun truthy :: "label \<Rightarrow> bool" where
  "truthy (LString s) = (s \<noteq> [])"
| "truthy (LNumber (Finite x)) = (x \<noteq> 0)"
| "truthy (LNumber PosInfinity) = True"
| "truthy (LNumber NegInfinity) = True"
| "truthy (LNumber NaN) = False"
| "truthy (LBoolean b) = b"

record dataLayer =
  event :: gtmEvent
  layerChainId :: string
  eventCategory :: string
  eventAction :: string
  eventLabel :: "label option"

text \<open>
  The module's surroundings: the build flag, whether the page has a \<^verbatim>\<open>debug-badge\<close>
  element, and the current chain id.
\<close>

record gtmConfig =
  IS_PRODUCTION :: bool
  debugBadge :: bool
  currentChain :: string

definition SHOULD_LOAD_GTM :: "gtmConfig \<Rightarrow> bool" where
  "SHOULD_LOAD_GTM cfg = (IS_PRODUCTION cfg \<or> debugBadge cfg)"

text \<open>What one call emits: the objects printed by \<^verbatim>\<open>console.info\<close> and the objects
  handed to \<^verbatim>\<open>TagManager.dataLayer\<close>.\<close>

record gtmEffects =
  consoleInfo :: "dataLayer list"
  tagManagerDataLayer :: "dataLayer list"

text \<open>
  \<^verbatim>\<open>...(label && { eventLabel: label })\<close>: spreading a falsy value adds no property, so
  the property is there only for a truthy label.
\<close>

definition trackEvent ::
  "gtmConfig \<Rightarrow> gtmEvent \<Rightarrow> string \<Rightarrow> string \<Rightarrow> label option \<Rightarrow> gtmEffects" where
  "trackEvent cfg ev category action lbl =
    (let layer =
           \<lparr>event = ev,
            layerChainId = currentChain cfg,
            eventCategory = category,
            eventAction = action,
            eventLabel = (case lbl of None \<Rightarrow> None | Some l \<Rightarrow> if truthy l then Some l else None)\<rparr>
     in \<lparr>consoleInfo = (if \<not> IS_PRODUCTION cfg then [layer] else []),
         tagManagerDataLayer = (if SHOULD_LOAD_GTM cfg then [layer] else [])\<rparr>)"

section \<open>Example configurations\<close>

definition mainnetSingleton :: singletonDeployment where
  "mainnetSingleton =
    \<lparr>deploymentVersion = ''1.3.0'', abi = [''setup'', ''execTransaction''],
     networkAddresses = [''1'' \<mapsto> ''0xd9Db270c1B5E3Bd161E8c8503c55cEABeE709552'']\<rparr>"

text \<open>A registry in which every lookup misses.\<close>

definition emptyRegistry :: config where
  "emptyRegistry =
    \<lparr>safeDeployments = (\<lambda>fn flt. None),
     semverSatisfies = (\<lambda>v r. False),
     getChainId = ''1'',
     getChainById = (\<lambda>c. \<lparr>chainInfoId = c, l2 = False\<rparr>),
     LATEST_SAFE_VERSION = ''1.3.0''\<rparr>"

text \<open>A registry that knows one descriptor, with an address on network 1 only.\<close>

definition mainnetRegistry :: config where
  "mainnetRegistry =
    \<lparr>safeDeployments = (\<lambda>fn flt. if network flt = None \<or> network flt = Some ''1''
                                  then Some mainnetSingleton else None),
     semverSatisfies = (\<lambda>v r. False),
     getChainId = ''1'',
     getChainById = (\<lambda>c. \<lparr>chainInfoId = c, l2 = False\<rparr>),
     LATEST_SAFE_VERSION = ''1.3.0''\<rparr>"

text \<open>
  A registry whose SignMessageLib descriptor has an address of its own on chain
  1666600000.
\<close>

definition harmonyRegistry :: config where
  "harmonyRegistry =
    \<lparr>safeDeployments =
       (\<lambda>fn flt. if fn = getSignMessageLibDeployment
                  then Some \<lparr>deploymentVersion = ''1.3.0'', abi = [''signMessage''],
                             networkAddresses =
                               [''1666600000'' \<mapsto> ''0xA65387F16B013cf2Af4605Ad8aA5ec25a2cbA3a2'']\<rparr>
                  else None),
     semverSatisfies = (\<lambda>v r. False),
     getChainId = ''1666600000'',
     getChainById = (\<lambda>c. \<lparr>chainInfoId = c, l2 = False\<rparr>),
     LATEST_SAFE_VERSION = ''1.3.0''\<rparr>"

text \<open>
  A registry whose L1 table knows version 1.0.0 only, on a chain that is not an L2, with
  a range test that places 0.1.0 below 1.0.0.
\<close>

definition legacyRegistry :: config where
  "legacyRegistry =
    \<lparr>safeDeployments =
       (\<lambda>fn flt. if fn = getSafeSingletonDeployment \<and> version flt = Some ''1.0.0'' \<and> network flt = None
                  then Some (mainnetSingleton\<lparr>deploymentVersion := ''1.0.0''\<rparr>) else None),
     semverSatisfies = (\<lambda>v r. v = ''0.1.0'' \<and> r = ''<1.0.0''),
     getChainId = ''1'',
     getChainById = (\<lambda>c. \<lparr>chainInfoId = c, l2 = False\<rparr>),
     LATEST_SAFE_VERSION = ''1.3.0''\<rparr>"

text \<open>An address comparison that never holds of an absent address.\<close>

definition exactSameAddress :: "string option \<Rightarrow> string option \<Rightarrow> bool" where
  "exactSameAddress a b =
    (case a of None \<Rightarrow> False | Some x \<Rightarrow> (case b of None \<Rightarrow> False | Some y \<Rightarrow> x = y))"

definition balanceOf :: "string option \<Rightarrow> string \<Rightarrow> safeBalance" where
  "balanceOf addr amount = \<lparr>tokenAddress = addr, fiatBalance = ''0'', tokenBalance = amount\<rparr>"

definition etherToken :: token where
  "etherToken =
    \<lparr>address = ''0xE'', tokenName = ''Ether'', symbol = ''ETH'', decimals = 18, logoUri = [],
     balance = balanceOf None ''0''\<rparr>"

definition daiToken :: token where
  "daiToken =
    \<lparr>address = ''0xD'', tokenName = ''Dai'', symbol = ''DAI'', decimals = 18, logoUri = [],
     balance = balanceOf None ''0''\<rparr>"

section \<open>Resolution of a Safe deployment\<close>

lemma orElse_Some [simp]: "orElse (Some d, t) b = (Some d, t)"
  by (simp add: orElse_def)

lemma orElse_None [simp]: "orElse (None, t) b = (fst b, t @ snd b)"
  by (simp add: orElse_def)

text \<open>
  C1. For every version string the deployment is resolved in three tiers, in this order:
  the entry for that version on the current network; then the entry for that version with
  no network; then, only when the version satisfies \<^verbatim>\<open><1.0.0\<close>, the entry for version
  \<^verbatim>\<open>1.0.0\<close>. The first hit is returned and no later lookup is made; when every lookup
  misses the result is \<^verbatim>\<open>undefined\<close>. The second component lists the lookups made.
\<close>

theorem getSafeContractDeployment_three_tiers:
  fixes env :: config and safeVersion :: string
  defines "fn \<equiv> (if l2 (getChainById env (getChainId env)) \<and> semverSatisfies env safeVersion ''>=1.3.0''
                  then getSafeL2SingletonDeployment else getSafeSingletonDeployment)"
  defines "exact \<equiv> \<lparr>version = Some safeVersion, network = Some (getChainId env)\<rparr>"
  defines "versionOnly \<equiv> \<lparr>version = Some safeVersion, network = None\<rparr>"
  defines "legacy \<equiv> \<lparr>version = Some ''1.0.0'', network = None\<rparr>"
  shows "getSafeContractDeployment env safeVersion =
    (case safeDeployments env fn exact of
       Some d \<Rightarrow> (Some d, [(fn, exact)])
     | None \<Rightarrow>
        (case safeDeployments env fn versionOnly of
           Some d \<Rightarrow> (Some d, [(fn, exact), (fn, versionOnly)])
         | None \<Rightarrow>
            if semverSatisfies env safeVersion ''<1.0.0''
            then (safeDeployments env fn legacy, [(fn, exact), (fn, versionOnly), (fn, legacy)])
            else (None, [(fn, exact), (fn, versionOnly)])))"
  unfolding fn_def exact_def versionOnly_def legacy_def
  by (simp add: getSafeContractDeployment_def callDeployment_def Let_def split: option.splits)

text \<open>
  The third tier at work: version 0.1.0 misses twice and is served by the entry for
  1.0.0, after three lookups in the L1 table; version 1.1.0 misses twice and stops.
\<close>

lemma getSafeContractDeployment_legacy_example:
  "getSafeContractDeployment legacyRegistry ''0.1.0'' =
     (Some (mainnetSingleton\<lparr>deploymentVersion := ''1.0.0''\<rparr>),
      [(getSafeSingletonDeployment, \<lparr>version = Some ''0.1.0'', network = Some ''1''\<rparr>),
       (getSafeSingletonDeployment, \<lparr>version = Some ''0.1.0'', network = None\<rparr>),
       (getSafeSingletonDeployment, \<lparr>version = Some ''1.0.0'', network = None\<rparr>)])
   \<and> getSafeContractDeployment legacyRegistry ''1.1.0'' =
     (None,
      [(getSafeSingletonDeployment, \<lparr>version = Some ''1.1.0'', network = Some ''1''\<rparr>),
       (getSafeSingletonDeployment, \<lparr>version = Some ''1.1.0'', network = None\<rparr>)])"
  by (simp add: getSafeContractDeployment_def callDeployment_def orElse_def legacyRegistry_def Let_def)

text \<open>
  C2. For every version string, every lookup of \<open>getSafeContractDeployment\<close> goes to one
  table, and at least one lookup is made: the L2 singleton table if and only if the
  current chain's configuration has \<open>l2\<close> set and the version satisfies \<^verbatim>\<open>>=1.3.0\<close>,
  and the L1 singleton table in every other case.
\<close>

theorem getSafeContractDeployment_table:
  fixes env :: config and safeVersion :: string
  defines "useL2 \<equiv> l2 (getChainById env (getChainId env)) \<and> semverSatisfies env safeVersion ''>=1.3.0''"
  defines "consulted \<equiv> fst ` set (snd (getSafeContractDeployment env safeVersion))"
  shows "consulted = {if useL2 then getSafeL2SingletonDeployment else getSafeSingletonDeployment}
    \<and> (getSafeL2SingletonDeployment \<in> consulted) = useL2
    \<and> (getSafeSingletonDeployment \<in> consulted) = (\<not> useL2)"
  unfolding useL2_def consulted_def
  by (auto simp add: getSafeContractDeployment_def callDeployment_def orElse_def Let_def
      split: option.splits)

section \<open>Contract getters\<close>

text \<open>
  What the two getters do when the lookups miss (the resolved descriptor is
  \<^verbatim>\<open>undefined\<close>, or it has no address, or an empty one, for the chain): they hand the
  constructor the descriptor's ABI, if there is a descriptor, and the literal address
  \<^verbatim>\<open>0x4f9b1def3a0f6747bf8c870a27d3decdf029100e\<close>. Their outcome is the constructor's.
\<close>

lemma contract_getters_pass_literal:
  fixes env :: config and web3 :: web3 and chainId :: string
  defines "safeSingleton \<equiv> fst (getSafeContractDeployment env (LATEST_SAFE_VERSION env))"
  defines "proxyFactory \<equiv>
    (case safeDeployments env getProxyFactoryDeployment
            \<lparr>version = Some (LATEST_SAFE_VERSION env), network = Some chainId\<rparr> of
       Some d \<Rightarrow> Some d
     | None \<Rightarrow> safeDeployments env getProxyFactoryDeployment
            \<lparr>version = Some (LATEST_SAFE_VERSION env), network = None\<rparr>)"
  shows "(falsyAddress (addressFor safeSingleton chainId) \<longrightarrow>
         getGnosisSafeContractInstance env web3 chainId =
           eth_Contract web3 (map_option abi safeSingleton)
             ''0x4f9b1def3a0f6747bf8c870a27d3decdf029100e'')
    \<and> (falsyAddress (addressFor proxyFactory chainId) \<longrightarrow>
         getProxyFactoryContractInstance env web3 chainId =
           eth_Contract web3 (map_option abi proxyFactory)
             ''0x4f9b1def3a0f6747bf8c870a27d3decdf029100e'')"
  unfolding safeSingleton_def proxyFactory_def
  by (auto simp add: getGnosisSafeContractInstance_def getProxyFactoryContractInstance_def
      callDeployment_def orElse_def falsyAddress_def orLiteral_def Let_def split: option.splits)

text \<open>
  With a descriptor that has no address for the chain (chain 5, where the only descriptor
  has an address on chain 1) the fallback works: the instance is at the literal address.
\<close>

lemma contract_getters_fall_back_example:
  "getGnosisSafeContractInstance mainnetRegistry web3js ''5'' =
     Inr \<lparr>contractAbi = [''setup'', ''execTransaction''],
          contractAddress = ''0x4f9b1def3a0f6747bf8c870a27d3decdf029100e''\<rparr>
   \<and> getProxyFactoryContractInstance mainnetRegistry web3js ''5'' =
     Inr \<lparr>contractAbi = [''setup'', ''execTransaction''],
          contractAddress = ''0x4f9b1def3a0f6747bf8c870a27d3decdf029100e''\<rparr>"
  by (simp add: getGnosisSafeContractInstance_def getProxyFactoryContractInstance_def
      getSafeContractDeployment_def callDeployment_def orElse_def addressFor_def orLiteral_def
      mainnetRegistry_def mainnetSingleton_def web3js_def Let_def)

text \<open>
  C5. On a registry where every lookup misses, the resolved descriptor is
  \<^verbatim>\<open>undefined\<close>, and so is the ABI handed to the constructor together with the literal
  address: the constructor throws, and so do the GnosisSafe and the ProxyFactory getter,
  instead of returning an instance at the literal address.
\<close>

theorem contract_getters_throw_without_descriptor:
  "getGnosisSafeContractInstance emptyRegistry web3js ''1'' =
     Inl (Error ''You must provide the json interface of the contract when instantiating a contract object.'')
   \<and> getProxyFactoryContractInstance emptyRegistry web3js ''1'' =
     Inl (Error ''You must provide the json interface of the contract when instantiating a contract object.'')"
  by (simp add: getGnosisSafeContractInstance_def getProxyFactoryContractInstance_def
      getSafeContractDeployment_def callDeployment_def orElse_def addressFor_def orLiteral_def
      emptyRegistry_def web3js_def Let_def)

text \<open>
  C6. For every chain id, \<open>getSignMessageLibAddress\<close> throws the generic error exactly
  when no address is resolved: the chain is not the one with the hardcoded address, and
  the descriptor found (for that network, else the default one) is \<^verbatim>\<open>undefined\<close> or
  has no address, or an empty one, for the chain. In every other case it returns a
  non-empty address string.
\<close>

theorem getSignMessageLibAddress_throws_iff:
  fixes env :: config and chainId :: string
  defines "deployment \<equiv>
    (case safeDeployments env getSignMessageLibDeployment \<lparr>version = None, network = Some chainId\<rparr> of
       Some d \<Rightarrow> Some d
     | None \<Rightarrow> safeDeployments env getSignMessageLibDeployment \<lparr>version = None, network = None\<rparr>)"
  defines "resolved \<equiv> (case deployment of None \<Rightarrow> None | Some d \<Rightarrow> networkAddresses d chainId)"
  defines "missing \<equiv> (chainId \<noteq> ''1666600000'' \<and> resolved \<in> {None, Some []})"
  shows "(fst (getSignMessageLibAddress env chainId) =
            Inl (Error (''SignMessageLib contract not found for chainId: '' @ chainId))) = missing
    \<and> (\<exists>e. fst (getSignMessageLibAddress env chainId) = Inl e) = missing
    \<and> (\<exists>a. fst (getSignMessageLibAddress env chainId) = Inr a \<and> a \<noteq> []) = (\<not> missing)"
  unfolding deployment_def resolved_def missing_def
  by (auto simp add: getSignMessageLibAddress_def signMessageLibDeployment_def addressFor_def
      callDeployment_def orElse_def falsyAddress_def orLiteral_def Let_def split: option.splits)

text \<open>
  C9. For chain id \<^verbatim>\<open>1666600000\<close> both SignMessageLib functions use the hardcoded
  address \<^verbatim>\<open>0x1b02dA8Cb0d097eB8D57A175b88c7D8b47997506\<close>, whatever the registry holds
  for that chain (also when it holds nothing): the first returns it, and the second
  hands it to the constructor, with the ABI of the descriptor found, if any.
\<close>

theorem signMessageLib_hardcoded_for_1666600000:
  fixes env :: config and web3 :: web3
  defines "deployment \<equiv>
    (case safeDeployments env getSignMessageLibDeployment
            \<lparr>version = None, network = Some ''1666600000''\<rparr> of
       Some d \<Rightarrow> Some d
     | None \<Rightarrow> safeDeployments env getSignMessageLibDeployment \<lparr>version = None, network = None\<rparr>)"
  shows "fst (getSignMessageLibAddress env ''1666600000'') =
       Inr ''0x1b02dA8Cb0d097eB8D57A175b88c7D8b47997506''
   \<and> getSignMessageLibContractInstance env web3 ''1666600000'' =
       eth_Contract web3 (map_option abi deployment) ''0x1b02dA8Cb0d097eB8D57A175b88c7D8b47997506''"
  unfolding deployment_def
  by (auto simp add: getSignMessageLibAddress_def getSignMessageLibContractInstance_def
      signMessageLibDeployment_def callDeployment_def orElse_def Let_def split: option.splits)

text \<open>
  On a registry that has an address for that chain, the hardcoded one still wins; and
  with the library's constructor the instance exists when a descriptor is found.
\<close>

lemma signMessageLib_hardcoded_example:
  "fst (getSignMessageLibAddress harmonyRegistry ''1666600000'') =
     Inr ''0x1b02dA8Cb0d097eB8D57A175b88c7D8b47997506''
   \<and> getSignMessageLibContractInstance harmonyRegistry web3js ''1666600000'' =
     Inr \<lparr>contractAbi = [''signMessage''],
          contractAddress = ''0x1b02dA8Cb0d097eB8D57A175b88c7D8b47997506''\<rparr>"
  by (simp add: getSignMessageLibAddress_def getSignMessageLibContractInstance_def
      signMessageLibDeployment_def callDeployment_def orElse_def addressFor_def
      harmonyRegistry_def web3js_def Let_def)

section \<open>The catch branch of getMasterCopyAddressFromProxyAddress\<close>

text \<open>
  A rejection of \<open>getSafeInfo\<close> with a value that has a \<^verbatim>\<open>log\<close> method: the
  \<^verbatim>\<open>catch\<close> branch does not fail. The value is logged, the error is swallowed and
  the function resolves to \<^verbatim>\<open>undefined\<close>.
\<close>

theorem getMasterCopyAddress_catch_swallows:
  "getMasterCopyAddressFromProxyAddress (\<lambda>a. Inl (loggableError ''Network Error'')) ''0x1'' =
     (Inr None, [LogCalled (loggableError ''Network Error'')])"
  by (simp add: getMasterCopyAddressFromProxyAddress_def loggableError_def)

text \<open>
  C7. Whenever \<open>getSafeInfo\<close> rejects, the \<^verbatim>\<open>catch\<close> branch calls \<^verbatim>\<open>log\<close> on the
  caught value, and no master copy address is returned. The branch fails, and the
  function rejects with a \<^verbatim>\<open>TypeError\<close>, exactly when the value has no \<^verbatim>\<open>log\<close>
  method, as a standard error value has none; it swallows the error and resolves to
  \<^verbatim>\<open>undefined\<close>, after the call of \<^verbatim>\<open>log\<close>, exactly when the value has one.
\<close>

theorem getMasterCopyAddress_catch_branch:
  assumes "getSafeInfo proxyAddress = Inl e"
  shows "(getMasterCopyAddressFromProxyAddress getSafeInfo proxyAddress =
            (Inl (TypeError ''e.log is not a function''), [])) = (\<not> hasLogMethod e)
    \<and> (getMasterCopyAddressFromProxyAddress getSafeInfo proxyAddress =
            (Inr None, [LogCalled e])) = hasLogMethod e
    \<and> (\<forall>a. fst (getMasterCopyAddressFromProxyAddress getSafeInfo proxyAddress) \<noteq> Inr (Some a))"
  using assms by (simp add: getMasterCopyAddressFromProxyAddress_def)

theorem getMasterCopyAddress_catch_branch_witness:
  "getMasterCopyAddressFromProxyAddress (\<lambda>a. Inl (standardError ''Network Error'')) ''0x1'' =
     (Inl (TypeError ''e.log is not a function''), [])
   \<and> getMasterCopyAddressFromProxyAddress (\<lambda>a. Inl (standardError ''Network Error'')) ''0x1'' \<noteq>
     (Inr None, [LogCalled (standardError ''Network Error'')])"
  using getMasterCopyAddress_catch_branch
    [of "\<lambda>a. Inl (standardError ''Network Error'')" "''0x1''" "standardError ''Network Error''"]
  by (simp add: standardError_def)

section \<open>The token selector\<close>

lemma forEachBalance_map_filter:
  "forEachBalance sameAddress tokensList ethAsToken entries acc =
     acc @ List.map_filter (extendToken sameAddress tokensList ethAsToken) entries"
  by (induction entries arbitrary: acc) (simp_all add: map_filter_simps split: option.splits)

lemma extendToken_knownToken:
  assumes "\<forall>a. \<not> sameAddress a None"
  shows "extendToken sameAddress tokensList ethAsToken b =
    map_option (\<lambda>t. t\<lparr>balance := b\<rparr>) (knownToken sameAddress tokensList ethAsToken b)"
  using assms by (simp add: extendToken_def knownToken_def Let_def split: option.splits)

lemma map_balance_map_filter:
  "map balance (List.map_filter (\<lambda>b. map_option (\<lambda>t. t\<lparr>balance := b\<rparr>) (f b)) entries) =
     filter (\<lambda>b. f b \<noteq> None) entries"
  by (induction entries) (auto simp add: map_filter_simps split: option.splits)

text \<open>
  C3. For every array of balance entries, provided \<^verbatim>\<open>sameAddress\<close> never holds of an
  absent address: the selector returns, in the order of the array, one token per entry
  whose address matches a known token (the native-currency token first, else the entry
  of the tokens map), namely that token with its \<open>balance\<close> field set to the entry; the
  balances of the returned tokens are exactly the matching entries, so every other entry
  is skipped; and no monitoring message is emitted.
\<close>

theorem extendedSafeTokensSelector_known_tokens:
  assumes "\<forall>a. \<not> sameAddress a None"
  shows "fst (extendedSafeTokensSelector sameAddress (BalancesArray entries) tokensList ethAsToken) =
      List.map_filter
        (\<lambda>b. map_option (\<lambda>t. t\<lparr>balance := b\<rparr>) (knownToken sameAddress tokensList ethAsToken b))
        entries
    \<and> map balance
        (fst (extendedSafeTokensSelector sameAddress (BalancesArray entries) tokensList ethAsToken)) =
      filter (\<lambda>b. knownToken sameAddress tokensList ethAsToken b \<noteq> None) entries
    \<and> snd (extendedSafeTokensSelector sameAddress (BalancesArray entries) tokensList ethAsToken) = []"
proof -
  have body: "extendToken sameAddress tokensList ethAsToken =
      (\<lambda>b. map_option (\<lambda>t. t\<lparr>balance := b\<rparr>) (knownToken sameAddress tokensList ethAsToken b))"
    by (intro ext) (simp add: extendToken_knownToken assms)
  have res: "fst (extendedSafeTokensSelector sameAddress (BalancesArray entries) tokensList ethAsToken) =
      List.map_filter
        (\<lambda>b. map_option (\<lambda>t. t\<lparr>balance := b\<rparr>) (knownToken sameAddress tokensList ethAsToken b))
        entries"
    by (simp add: extendedSafeTokensSelector_def forEachBalance_map_filter body)
  show ?thesis
    by (simp add: res map_balance_map_filter) (simp add: extendedSafeTokensSelector_def)
qed

text \<open>
  Four entries: the native currency, an unknown address, a token of the map, and an
  entry without an address. Two tokens come back.
\<close>

theorem extendedSafeTokensSelector_known_tokens_witness:
  "(\<forall>a. \<not> exactSameAddress a None)
   \<and> fst (extendedSafeTokensSelector exactSameAddress
        (BalancesArray [balanceOf (Some ''0xE'') ''7'', balanceOf (Some ''0xF'') ''1'',
                        balanceOf (Some ''0xD'') ''3'', balanceOf None ''9''])
        [''0xD'' \<mapsto> daiToken] (Some etherToken)) =
      [etherToken\<lparr>balance := balanceOf (Some ''0xE'') ''7''\<rparr>,
       daiToken\<lparr>balance := balanceOf (Some ''0xD'') ''3''\<rparr>]"
proof -
  have never: "\<forall>a. \<not> exactSameAddress a None"
    by (simp add: exactSameAddress_def split: option.splits)
  show ?thesis
    using never extendedSafeTokensSelector_known_tokens
      [of exactSameAddress
          "[balanceOf (Some ''0xE'') ''7'', balanceOf (Some ''0xF'') ''1'',
            balanceOf (Some ''0xD'') ''3'', balanceOf None ''9'']"
          "[''0xD'' \<mapsto> daiToken]" "Some etherToken", OF never]
    by (simp add: exactSameAddress_def knownToken_def balanceOf_def etherToken_def daiToken_def
        map_filter_simps)
qed

text \<open>
  C4. Whenever the persisted balances are not an array, the selector returns the empty
  list (no token record) and emits exactly one monitoring message.
\<close>

theorem extendedSafeTokensSelector_not_array:
  assumes "\<not> isArray safeBalances"
  shows "extendedSafeTokensSelector sameAddress safeBalances tokensList ethAsToken =
    ([], [''There was an error loading `safeBalances` in `extendedSafeTokensSelector`, probably safe loaded prior to v3.5.0''])"
  using assms by (cases safeBalances) (simp_all add: extendedSafeTokensSelector_def)

theorem extendedSafeTokensSelector_not_array_witness:
  "extendedSafeTokensSelector exactSameAddress
      (BalancesObject [(''0xD'', ''3'')]) [''0xD'' \<mapsto> daiToken] (Some etherToken) =
    ([], [''There was an error loading `safeBalances` in `extendedSafeTokensSelector`, probably safe loaded prior to v3.5.0''])"
  using extendedSafeTokensSelector_not_array
    [of "BalancesObject [(''0xD'', ''3'')]" exactSameAddress "[''0xD'' \<mapsto> daiToken]" "Some etherToken"]
  by simp

section \<open>The analytics module\<close>

lemma truthy_iff:
  "truthy l = (l \<notin> {LNumber (Finite 0), LNumber NaN, LBoolean False, LString []})"
  by (cases l rule: truthy.cases) auto

text \<open>
  C10. Every data layer \<open>trackEvent\<close> emits (to the tag manager and to the console) has no
  \<open>eventLabel\<close> when the label is absent or falsy, that is the number 0, \<^verbatim>\<open>NaN\<close>,
  \<^verbatim>\<open>false\<close> or the empty string, and has the label itself as \<open>eventLabel\<close> for every
  other label.
\<close>

theorem trackEvent_eventLabel:
  fixes cfg :: gtmConfig and lbl :: "label option"
  defines "expected \<equiv>
    (case lbl of
       None \<Rightarrow> None
     | Some l \<Rightarrow>
         if l \<in> {LNumber (Finite 0), LNumber NaN, LBoolean False, LString []} then None else Some l)"
  shows "map eventLabel (tagManagerDataLayer (trackEvent cfg ev category action lbl)) =
           (if SHOULD_LOAD_GTM cfg then [expected] else [])
    \<and> map eventLabel (consoleInfo (trackEvent cfg ev category action lbl)) =
           (if IS_PRODUCTION cfg then [] else [expected])"
  unfolding expected_def
  by (simp add: trackEvent_def Let_def truthy_iff split: option.splits)

subsection \<open>Anonymized locations\<close>

lemma replace_indexOf:
  "replace s pat rep =
    (case indexOf s pat of None \<Rightarrow> s | Some i \<Rightarrow> take i s @ rep @ drop (i + length pat) s)"
  by (induction s) (auto split: option.splits)

lemma replace_at:
  assumes "indexOf (pre @ pat @ post) pat = Some (length pre)"
  shows "replace (pre @ pat @ post) pat rep = pre @ rep @ post"
  using assms by (simp add: replace_indexOf)

lemma replace_leading_segment:
  assumes "a \<noteq> []" and "hd a \<noteq> CHR ''/''"
  shows "replace (CHR ''/'' # a @ rest) a rep = CHR ''/'' # rep @ rest"
  using assms by (cases a) auto

text \<open>
  What the function does achieve. For a pathname \<^verbatim>\<open>/a<mid>t<rest>\<close> whose safe address
  \<open>a\<close> and transaction id \<open>t\<close> are the parameters the router reports, the result names
  neither of them, provided the text of \<open>t\<close> does not occur in the pathname before its
  own place once the address has been replaced.
\<close>

lemma getAnonymizedLocation_anonymizes:
  assumes path: "pathname loc = CHR ''/'' # a @ mid @ t @ rest"
    and seg: "a \<noteq> []" "hd a \<noteq> CHR ''/''"
    and addr: "matchPath router (pathname loc) (ADDRESSED_ROUTE router) = Some ps"
      "ps (SAFE_ADDRESS_SLUG router) = Some a"
    and tx: "matchPath router (pathname loc) (TRANSACTIONS_SINGULAR router) = Some qs"
      "qs (TRANSACTION_ID_SLUG router) = Some t"
    and first: "indexOf (''/SAFE_ADDRESS'' @ mid @ t @ rest) t = Some (length (''/SAFE_ADDRESS'' @ mid))"
  shows "getAnonymizedLocation router loc =
    ''/SAFE_ADDRESS'' @ mid @ ''TRANSACTION_ID'' @ rest @ search loc @ hash loc"
proof -
  have one: "replace (pathname loc) a ''SAFE_ADDRESS'' = ''/SAFE_ADDRESS'' @ mid @ t @ rest"
    using replace_leading_segment [OF seg, of "mid @ t @ rest" "''SAFE_ADDRESS''"] path by simp
  have two: "replace ((''/SAFE_ADDRESS'' @ mid) @ t @ rest) t ''TRANSACTION_ID'' =
      (''/SAFE_ADDRESS'' @ mid) @ ''TRANSACTION_ID'' @ rest"
    by (rule replace_at) (use first in simp)
  show ?thesis
    using one two addr tx
    by (simp add: getAnonymizedLocation_def paramText_def Let_def)
qed

text \<open>
  C8. Two locations that differ in the transaction-id segment only, \<^verbatim>\<open>DD\<close> against
  \<^verbatim>\<open>EE\<close>, under the routes \<^verbatim>\<open>/:prefixedSafeAddress\<close> and
  \<^verbatim>\<open>/:prefixedSafeAddress/transactions/:txId\<close>. The replacement of the transaction id
  takes the first occurrence of its text, which for \<^verbatim>\<open>DD\<close> lies inside the
  \<^verbatim>\<open>SAFE_ADDRESS\<close> just written: the id stays in the result, and the two results differ.
\<close>

theorem getAnonymizedLocation_keeps_transaction_id:
  "getAnonymizedLocation segmentRouter
      \<lparr>pathname = ''/rin:0x1A/transactions/DD'', search = ''?a=1'', hash = ''#top''\<rparr> =
     ''/SAFE_ATRANSACTION_IDRESS/transactions/DD?a=1#top''
   \<and> getAnonymizedLocation segmentRouter
      \<lparr>pathname = ''/rin:0x1A/transactions/EE'', search = ''?a=1'', hash = ''#top''\<rparr> =
     ''/SAFE_ADDRESS/transactions/TRANSACTION_ID?a=1#top''"
  by (simp add: getAnonymizedLocation_def segmentRouter_def matchSegments_def paramText_def Let_def)

end
